theory Spec2Isabelle
  imports Main
begin

section \<open>Responses, exceptions and collaborators\<close>

text \<open>
  Every handler ends in \<^verbatim>\<open>res.status(n).json({...})\<close>: a status code and a JSON
  object. JSON values are strings or objects here, which is all the handlers build.
\<close>

datatype json = JString string | JObject "(string \<times> json) list"

datatype response = Response nat json

fun status :: "response \<Rightarrow> nat" where
  "status (Response n b) = n"



text \<open>\<^verbatim>\<open>res.status(n).json({ message: m })\<close>\<close>

definition message_response :: "nat \<Rightarrow> string \<Rightarrow> response" where
  "message_response n m = Response n (JObject [(''message'', JString m)])"

text \<open>
  What a \<^verbatim>\<open>try\<close> block of the handlers can catch. The handlers look only at
  \<^verbatim>\<open>error.name\<close>.
\<close>

datatype exn =
    TokenExpiredError
  | JsonWebTokenError string
  | NotBeforeError
  | SequelizeUniqueConstraintError
  | Error string

fun name :: "exn \<Rightarrow> string" where
  "name TokenExpiredError = ''TokenExpiredError''"
| "name (JsonWebTokenError m) = ''JsonWebTokenError''"
| "name NotBeforeError = ''NotBeforeError''"
| "name SequelizeUniqueConstraintError = ''SequelizeUniqueConstraintError''"
| "name (Error m) = ''Error''"

text \<open>The decoded payload of a token: the claims \<^verbatim>\<open>id\<close>, \<^verbatim>\<open>iat\<close>, \<^verbatim>\<open>exp\<close>.\<close>

record claims =
  claim_id :: string
  claim_iat :: nat
  claim_exp :: nat

text \<open>
  The packages \<^verbatim>\<open>jsonwebtoken\<close> and \<^verbatim>\<open>bcrypt\<close> are dependencies, not code of the
  repository: the handlers are modelled over any behaviour of them.
  \<^item> \<open>sign payload_id secret expiresIn clock\<close> is \<^verbatim>\<open>jwt.sign({ id }, secret, { expiresIn })\<close>,
    with \<open>expiresIn\<close> in seconds and the clock (seconds) that the call reads made explicit;
  \<^item> \<open>verify token secret clock\<close> is \<^verbatim>\<open>jwt.verify(token, secret)\<close>: the thrown error or
    the decoded payload;
  \<^item> \<open>hash data rounds salt\<close> is \<^verbatim>\<open>bcrypt.hash(data, rounds)\<close>, with the salt that the
    call draws at random made explicit;
  \<^item> \<open>compare data encrypted\<close> is \<^verbatim>\<open>bcrypt.compare(data, encrypted)\<close>.
\<close>

record jwt_lib =
  sign :: "string \<Rightarrow> string \<Rightarrow> nat \<Rightarrow> nat \<Rightarrow> string"
  verify :: "string \<Rightarrow> string \<Rightarrow> nat \<Rightarrow> exn + claims"

record bcrypt_lib =
  hash :: "string \<Rightarrow> nat \<Rightarrow> string \<Rightarrow> string"
  compare :: "string \<Rightarrow> string \<Rightarrow> bool"

text \<open>The arguments of one call \<^verbatim>\<open>sendResetMail(email, subject, username, resetLink)\<close>.\<close>

record mail =
  mail_to :: string
  mail_subject :: string
  mail_username :: string
  mail_link :: string

text \<open>
  The collaborators of the handlers: the two packages above, Joi's \<^verbatim>\<open>.email()\<close> test
  (its address grammar and domain tables are the package's), and whether the mail
  transport delivers a given message.
\<close>

record libs =
  jwt :: jwt_lib
  bcrypt :: bcrypt_lib
  joi_email :: "string \<Rightarrow> bool"
  mail_delivers :: "mail \<Rightarrow> bool"

text \<open>\<^verbatim>\<open>process.env\<close>, as far as the handlers read it.\<close>

record env =
  JWT_SECRET :: string
  FRONTEND_URL :: string

text \<open>
  What one request reads from outside the program: the clock in seconds, the salt that
  \<^verbatim>\<open>bcrypt.hash\<close> draws and the UUIDV4 that the model's default value draws.
\<close>

record io =
  clock :: nat
  salt :: string
  uuid :: string

section \<open>The user table\<close>

text \<open>
  A row of the \<^verbatim>\<open>User\<close> model. \<^verbatim>\<open>models/User.js\<close> declares \<^verbatim>\<open>id\<close> (UUID primary
  key), \<^verbatim>\<open>username\<close> (unique) and \<^verbatim>\<open>password\<close>; the \<^verbatim>\<open>email\<close> column is the one that
  \<^verbatim>\<open>User.create({ username, password, email })\<close>, \<^verbatim>\<open>findOne({ where: { email } })\<close> and
  \<^verbatim>\<open>attributes: ["id", "username", "email"]\<close> of the routes use.
\<close>

record user =
  user_id :: string
  username :: string
  password :: string
  email :: string

text \<open>
  The state outside the handlers: the table, as the list of its rows in insertion
  order, and the calls made to the mailer so far. The table is always reachable: a lost
  database connection is not part of the model.
\<close>

record world =
  users :: "user list"
  mail_calls :: "mail list"

text \<open>\<^verbatim>\<open>User.findOne({ where: { username } })\<close>, \<^verbatim>\<open>User.findOne({ where: { email } })\<close>
  and \<^verbatim>\<open>User.findByPk(id)\<close>: the matching row or \<^verbatim>\<open>null\<close>.\<close>

definition findOne_username :: "user list \<Rightarrow> string \<Rightarrow> user option" where
  "findOne_username tbl u = find (\<lambda>r. username r = u) tbl"

definition findOne_email :: "user list \<Rightarrow> string \<Rightarrow> user option" where
  "findOne_email tbl e = find (\<lambda>r. email r = e) tbl"

definition findByPk :: "user list \<Rightarrow> string \<Rightarrow> user option" where
  "findByPk tbl k = find (\<lambda>r. user_id r = k) tbl"

text \<open>The value of a column of a row; \<open>None\<close> for a name that is not a column.\<close>

definition column :: "user \<Rightarrow> string \<Rightarrow> string option" where
  "column r a =
     (if a = ''id'' then Some (user_id r)
      else if a = ''username'' then Some (username r)
      else if a = ''password'' then Some (password r)
      else if a = ''email'' then Some (email r)
      else None)"

text \<open>
  The JSON form of a row fetched with \<^verbatim>\<open>{ attributes: [...] }\<close>: the selected columns
  only, in the order asked for.
\<close>

definition select_attributes :: "string list \<Rightarrow> user \<Rightarrow> json" where
  "select_attributes attributes r =
     JObject (List.map_filter (\<lambda>a. map_option (\<lambda>v. (a, JString v)) (column r a)) attributes)"

text \<open>
  Modelled from the spec: the uniqueness of \<^verbatim>\<open>email\<close> (section 3, one record per email;
  section 6, \<^verbatim>\<open>create\<close> fails when username or email already exists). The model file
  with the \<^verbatim>\<open>email\<close> column is not among the sources; \<^verbatim>\<open>models/User.js\<close> gives the
  primary key and the unique \<^verbatim>\<open>username\<close>.

  \<^verbatim>\<open>User.create({ username, password, email })\<close> with the drawn UUID \<open>k\<close>: the new row and the
  table with it, or the unique-constraint error of the store.
\<close>

definition User_create ::
  "user list \<Rightarrow> string \<Rightarrow> string \<Rightarrow> string \<Rightarrow> string \<Rightarrow> exn + (user \<times> user list)" where
  "User_create tbl k u p e =
     (if \<exists>r \<in> set tbl. user_id r = k \<or> username r = u \<or> email r = e
      then Inl SequelizeUniqueConstraintError
      else (let newUser = \<lparr>user_id = k, username = u, password = p, email = e\<rparr>
            in Inr (newUser, tbl @ [newUser])))"

text \<open>\<^verbatim>\<open>user.update({ password })\<close>: the row with that primary key gets the new value.\<close>

definition user_update_password :: "user list \<Rightarrow> user \<Rightarrow> string \<Rightarrow> user list" where
  "user_update_password tbl u p =
     map (\<lambda>r. if user_id r = user_id u then r\<lparr>password := p\<rparr> else r) tbl"

section \<open>The token middleware and the profile route\<close>

text \<open>
  \<^verbatim>\<open>s.split(sep)\<close> of JavaScript for a one-character separator: the segments between
  the separators, empty ones included; never an empty array.
\<close>

fun js_split :: "char \<Rightarrow> string \<Rightarrow> string list" where
  "js_split sep [] = [[]]"
| "js_split sep (c # cs) =
     (if c = sep then [] # js_split sep cs
      else (case js_split sep cs of
              [] \<Rightarrow> [[c]]
            | seg # segs \<Rightarrow> (c # seg) # segs))"

text \<open>\<^verbatim>\<open>xs[i]\<close> of JavaScript: \<^verbatim>\<open>undefined\<close> (here \<open>None\<close>) out of range.\<close>

definition js_index :: "'a list \<Rightarrow> nat \<Rightarrow> 'a option" where
  "js_index xs i = (if i < length xs then Some (xs ! i) else None)"

text \<open>A middleware either answers the request or calls \<^verbatim>\<open>next()\<close> with \<^verbatim>\<open>req.userId\<close> set.\<close>

datatype middleware = Reply response | Next string

text \<open>
  \<^verbatim>\<open>verifyToken\<close> (userRoutes.js). The header is \<open>None\<close> when the request has none; a
  missing header and an empty one are both falsy, as are a missing and an empty second
  segment.
\<close>

definition verifyToken :: "libs \<Rightarrow> env \<Rightarrow> io \<Rightarrow> string option \<Rightarrow> middleware" where
  "verifyToken L E i authHeader =
     (case authHeader of
        None \<Rightarrow> Reply (message_response 403 ''No token provided.'')
      | Some h \<Rightarrow>
          if h = [] then Reply (message_response 403 ''No token provided.'')
          else (case js_index (js_split CHR '' '' h) 1 of
                  None \<Rightarrow> Reply (message_response 403 ''No token provided.'')
                | Some token \<Rightarrow>
                    if token = [] then Reply (message_response 403 ''No token provided.'')
                    else (case verify (jwt L) token (JWT_SECRET E) (clock i) of
                            Inl err \<Rightarrow> Reply (message_response 401 ''Invalid token.'')
                          | Inr decoded \<Rightarrow> Next (claim_id decoded))))"

text \<open>
  \<^verbatim>\<open>GET /profile\<close> behind \<^verbatim>\<open>verifyToken\<close>, with the attribute list of the route as
  its first argument: \<^verbatim>\<open>["id", "username", "email"]\<close> in the route that knows the email
  column, \<^verbatim>\<open>["id", "username"]\<close> in the earlier userRoutes.js.
\<close>

definition profile_route ::
  "string list \<Rightarrow> libs \<Rightarrow> env \<Rightarrow> io \<Rightarrow> string option \<Rightarrow> world \<Rightarrow> response" where
  "profile_route attributes L E i authHeader w =
     (case verifyToken L E i authHeader of
        Reply r \<Rightarrow> r
      | Next userId \<Rightarrow>
          (case findByPk (users w) userId of
             None \<Rightarrow> message_response 404 ''User not found.''
           | Some u \<Rightarrow>
               Response 200 (JObject [(''message'', JString ''Welcome to your profile!''),
                                      (''user'', select_attributes attributes u)])))"

definition profile :: "libs \<Rightarrow> env \<Rightarrow> io \<Rightarrow> string option \<Rightarrow> world \<Rightarrow> response" where
  "profile = profile_route [''id'', ''username'', ''email'']"


section \<open>Request validation\<close>

text \<open>
  A request body is a JSON object whose fields are strings, as the list of its
  (distinct) keys with their values; other JSON values are outside this type.
\<close>

type_synonym body = "(string \<times> string) list"

text \<open>The character classes of the regular expressions in validationSchemas.js.\<close>

definition is_lower :: "char \<Rightarrow> bool" where
  "is_lower c = (c \<in> set ''abcdefghijklmnopqrstuvwxyz'')"

definition is_upper :: "char \<Rightarrow> bool" where
  "is_upper c = (c \<in> set ''ABCDEFGHIJKLMNOPQRSTUVWXYZ'')"

definition is_digit :: "char \<Rightarrow> bool" where
  "is_digit c = (c \<in> set ''0123456789'')"

definition is_special :: "char \<Rightarrow> bool" where
  "is_special c = (c \<in> set ''@$!%*?&#'')"

text \<open>
  The password expression
  \<^verbatim>\<open>^(?=.*[a-z])(?=.*[A-Z])(?=.*\d)(?=.*[@$!%*?&#])[A-Za-z\d@$!%*?&#]{8,}$\<close>:
  the last group allows no line terminator between \<^verbatim>\<open>^\<close> and \<^verbatim>\<open>$\<close>, so each lookahead
  \<^verbatim>\<open>.*[...]\<close> ranges over the whole string.
\<close>

definition password_pattern :: "string \<Rightarrow> bool" where
  "password_pattern s =
     ((\<exists>c \<in> set s. is_lower c) \<and> (\<exists>c \<in> set s. is_upper c) \<and>
      (\<exists>c \<in> set s. is_digit c) \<and> (\<exists>c \<in> set s. is_special c) \<and>
      (\<forall>c \<in> set s. is_lower c \<or> is_upper c \<or> is_digit c \<or> is_special c) \<and>
      8 \<le> length s)"

text \<open>
  The string rules that the schemas chain, and a key of \<^verbatim>\<open>Joi.object({...})\<close>: its
  name, its rules in the order written and its \<^verbatim>\<open>.messages({...})\<close>. Every key of the
  four schemas is \<^verbatim>\<open>Joi.string()...required()\<close>.
\<close>

datatype rule = Alphanum | Min nat | Max nat | Pattern "string \<Rightarrow> bool" | Email

record key_schema =
  key :: string
  rules :: "rule list"
  messages :: "(string \<times> string) list"

fun rule_code :: "rule \<Rightarrow> string" where
  "rule_code Alphanum = ''string.alphanum''"
| "rule_code (Min n) = ''string.min''"
| "rule_code (Max n) = ''string.max''"
| "rule_code (Pattern p) = ''string.pattern.base''"
| "rule_code Email = ''string.email''"

fun rule_ok :: "(string \<Rightarrow> bool) \<Rightarrow> rule \<Rightarrow> string \<Rightarrow> bool" where
  "rule_ok email_ok Alphanum s = (\<forall>c \<in> set s. is_lower c \<or> is_upper c \<or> is_digit c)"
| "rule_ok email_ok (Min n) s = (n \<le> length s)"
| "rule_ok email_ok (Max n) s = (length s \<le> n)"
| "rule_ok email_ok (Pattern p) s = p s"
| "rule_ok email_ok Email s = email_ok s"

text \<open>
  The message of an error code: the one given in \<^verbatim>\<open>.messages\<close>, else Joi's own
  template with the key as label (the only codes without a message in the schemas are
  those of an empty string and of a key the schema does not know).
\<close>

definition quoted :: "string \<Rightarrow> string" where
  "quoted label = CHR 0x22 # label @ [CHR 0x22]"

definition default_message :: "string \<Rightarrow> string \<Rightarrow> string" where
  "default_message code label =
     (if code = ''string.empty'' then quoted label @ '' is not allowed to be empty''
      else if code = ''object.unknown'' then quoted label @ '' is not allowed''
      else quoted label @ '' is invalid'')"

definition error_message :: "key_schema \<Rightarrow> string \<Rightarrow> string" where
  "error_message ks code =
     (case map_of (messages ks) code of
        Some m \<Rightarrow> m
      | None \<Rightarrow> default_message code (key ks))"

text \<open>
  Joi on one key: a missing value is \<^verbatim>\<open>any.required\<close>, an empty string is
  \<^verbatim>\<open>string.empty\<close>, then the first rule that fails.
\<close>

definition validate_key :: "(string \<Rightarrow> bool) \<Rightarrow> key_schema \<Rightarrow> string option \<Rightarrow> string option" where
  "validate_key email_ok ks v =
     (case v of
        None \<Rightarrow> Some (error_message ks ''any.required'')
      | Some s \<Rightarrow>
          if s = [] then Some (error_message ks ''string.empty'')
          else (case find (\<lambda>r. \<not> rule_ok email_ok r s) (rules ks) of
                  Some r \<Rightarrow> Some (error_message ks (rule_code r))
                | None \<Rightarrow> None))"

fun validate_keys :: "(string \<Rightarrow> bool) \<Rightarrow> key_schema list \<Rightarrow> body \<Rightarrow> string option" where
  "validate_keys email_ok [] b = None"
| "validate_keys email_ok (ks # rest) b =
     (case validate_key email_ok ks (map_of b (key ks)) of
        Some m \<Rightarrow> Some m
      | None \<Rightarrow> validate_keys email_ok rest b)"

text \<open>
  \<^verbatim>\<open>schema.validate(req.body).error.details[0].message\<close>, \<open>None\<close> when there is no
  error: the keys of the schema in order (the first error ends the validation), then
  the first key of the body that the schema does not know.
\<close>

definition validate :: "(string \<Rightarrow> bool) \<Rightarrow> key_schema list \<Rightarrow> body \<Rightarrow> string option" where
  "validate email_ok schema b =
     (case validate_keys email_ok schema b of
        Some m \<Rightarrow> Some m
      | None \<Rightarrow>
          (case find (\<lambda>kv. fst kv \<notin> set (map key schema)) b of
             Some kv \<Rightarrow> Some (default_message ''object.unknown'' (fst kv))
           | None \<Rightarrow> None))"

definition registerSchema :: "key_schema list" where
  "registerSchema =
     [\<lparr>key = ''username'', rules = [Alphanum, Min 5, Max 30],
       messages =
         [(''string.alphanum'', ''Username must only contain alphanumeric characters.''),
          (''string.min'', ''Username must be at least 5 characters long.''),
          (''string.max'', ''Username must not exceed 30 characters.''),
          (''any.required'', ''Username is required.'')]\<rparr>,
      \<lparr>key = ''password'', rules = [Min 8, Pattern password_pattern],
       messages =
         [(''string.min'', ''Password must be at least 8 characters long.''),
          (''string.pattern.base'', ''Password must include at least one uppercase letter, one lowercase letter, one number, and one special character.''),
          (''any.required'', ''Password is required.'')]\<rparr>,
      \<lparr>key = ''email'', rules = [Email],
       messages =
         [(''string.email'', ''Email must be a valid email address.''),
          (''any.required'', ''Email is required.'')]\<rparr>]"

definition loginSchema :: "key_schema list" where
  "loginSchema =
     [\<lparr>key = ''username'', rules = [Alphanum, Min 3, Max 30],
       messages =
         [(''string.alphanum'', ''Username must only contain alphanumeric characters.''),
          (''string.min'', ''Username must be at least 3 characters long.''),
          (''string.max'', ''Username must not exceed 30 characters.''),
          (''any.required'', ''Username is required.'')]\<rparr>,
      \<lparr>key = ''password'', rules = [],
       messages = [(''any.required'', ''Password is required.'')]\<rparr>]"

definition resetPasswordSchema :: "key_schema list" where
  "resetPasswordSchema =
     [\<lparr>key = ''email'', rules = [Email],
       messages =
         [(''string.email'', ''Email must be a valid email address.''),
          (''any.required'', ''Email is required.'')]\<rparr>]"

definition newPasswordSchema :: "key_schema list" where
  "newPasswordSchema =
     [\<lparr>key = ''token'', rules = [],
       messages = [(''any.required'', ''Token is required.'')]\<rparr>,
      \<lparr>key = ''newPassword'', rules = [Min 8, Pattern password_pattern],
       messages =
         [(''string.min'', ''New password must be at least 8 characters long.''),
          (''string.pattern.base'', ''New password must include at least one uppercase letter, one lowercase letter, one number, and one special character.''),
          (''any.required'', ''New password is required.'')]\<rparr>]"

section \<open>The handlers\<close>

text \<open>
  After a successful validation the handlers read the fields of \<^verbatim>\<open>req.body\<close>. A field
  that is missing there is \<^verbatim>\<open>undefined\<close>, on which the first call of the \<^verbatim>\<open>try\<close> block
  throws (Sequelize on an undefined \<^verbatim>\<open>where\<close> value, bcrypt on missing data,
  jsonwebtoken on a missing token), none of them by a name the \<^verbatim>\<open>catch\<close> knows: the
  answer is the 500 of the \<^verbatim>\<open>catch\<close>. The schemas make every field they name required, so
  these branches are never taken.
\<close>

definition internal_error :: response where
  "internal_error = message_response 500 ''Internal server error.''"

text \<open>\<^verbatim>\<open>register\<close> (routes/auth/register.js, and \<^verbatim>\<open>POST /register\<close> of authRoutes.js).\<close>

definition register :: "libs \<Rightarrow> io \<Rightarrow> body \<Rightarrow> world \<Rightarrow> response \<times> world" where
  "register L i b w =
     (case validate (joi_email L) registerSchema b of
        Some m \<Rightarrow> (message_response 400 m, w)
      | None \<Rightarrow>
          (case map_of b ''username'' of
             None \<Rightarrow> (internal_error, w)
           | Some u \<Rightarrow>
          (case map_of b ''password'' of
             None \<Rightarrow> (internal_error, w)
           | Some p \<Rightarrow>
          (case map_of b ''email'' of
             None \<Rightarrow> (internal_error, w)
           | Some e \<Rightarrow>
               (let hashedPassword = hash (bcrypt L) p 10 (salt i) in
                case User_create (users w) (uuid i) u hashedPassword e of
                  Inr (newUser, tbl) \<Rightarrow>
                    (Response 201
                       (JObject [(''message'', JString ''User registered successfully.''),
                                 (''userId'', JString (user_id newUser))]),
                     w\<lparr>users := tbl\<rparr>)
                | Inl error \<Rightarrow>
                    if name error = ''SequelizeUniqueConstraintError''
                    then (message_response 400 ''Username or email already exists.'', w)
                    else (internal_error, w))))))"

text \<open>\<^verbatim>\<open>login\<close> (routes/auth/login.js, and \<^verbatim>\<open>POST /login\<close> of authRoutes.js). It writes
  nothing, so it returns the response only. \<^verbatim>\<open>expiresIn: "1h"\<close> is 3600 seconds.\<close>

definition login :: "libs \<Rightarrow> env \<Rightarrow> io \<Rightarrow> body \<Rightarrow> world \<Rightarrow> response" where
  "login L E i b w =
     (case validate (joi_email L) loginSchema b of
        Some m \<Rightarrow> message_response 400 m
      | None \<Rightarrow>
          (case map_of b ''username'' of
             None \<Rightarrow> internal_error
           | Some u \<Rightarrow>
          (case map_of b ''password'' of
             None \<Rightarrow> internal_error
           | Some p \<Rightarrow>
               (case findOne_username (users w) u of
                  None \<Rightarrow> message_response 400 ''Invalid username or password.''
                | Some usr \<Rightarrow>
                    if \<not> compare (bcrypt L) p (password usr)
                    then message_response 400 ''Invalid username or password.''
                    else (let token = sign (jwt L) (user_id usr) (JWT_SECRET E) 3600 (clock i)
                          in Response 200
                               (JObject [(''message'', JString ''Login successful.''),
                                         (''token'', JString token)]))))))"

text \<open>
  Modelled from the spec: the mailer (\<^verbatim>\<open>utils/mailer/mailer\<close> is not among the sources).
  Section 6: \<^verbatim>\<open>send(toAddress, subject, templateData)\<close>, whose failure surfaces as an
  internal error. Every call is recorded in the world; the result is the error thrown,
  if the transport does not deliver.
\<close>

definition sendResetMail :: "libs \<Rightarrow> mail \<Rightarrow> world \<Rightarrow> exn option \<times> world" where
  "sendResetMail L m w =
     ((if mail_delivers L m then None else Some (Error ''mail delivery failed'')),
      w\<lparr>mail_calls := mail_calls w @ [m]\<rparr>)"

text \<open>\<^verbatim>\<open>resetPasswordRequest\<close> (routes/auth/resetPassword.js, and \<^verbatim>\<open>POST /reset-password\<close>
  of authRoutes.js).\<close>

definition resetPasswordRequest :: "libs \<Rightarrow> env \<Rightarrow> io \<Rightarrow> body \<Rightarrow> world \<Rightarrow> response \<times> world" where
  "resetPasswordRequest L E i b w =
     (case validate (joi_email L) resetPasswordSchema b of
        Some m \<Rightarrow> (message_response 400 m, w)
      | None \<Rightarrow>
          (case map_of b ''email'' of
             None \<Rightarrow> (internal_error, w)
           | Some e \<Rightarrow>
               (case findOne_email (users w) e of
                  None \<Rightarrow> (message_response 404 ''Email not found.'', w)
                | Some usr \<Rightarrow>
                    (let resetToken = sign (jwt L) (user_id usr) (JWT_SECRET E) 3600 (clock i);
                         resetLink = FRONTEND_URL E @ ''/reset-password?token='' @ resetToken
                     in case sendResetMail L
                               \<lparr>mail_to = e, mail_subject = ''Password Reset Request'',
                                mail_username = username usr, mail_link = resetLink\<rparr> w of
                          (Some error, w') \<Rightarrow> (internal_error, w')
                        | (None, w') \<Rightarrow>
                            (message_response 200 ''Reset link sent successfully.'', w')))))"

text \<open>\<^verbatim>\<open>resetPassword\<close> (routes/auth/resetPassword.js, and \<^verbatim>\<open>PATCH /reset-password\<close> of
  authRoutes.js).\<close>

definition resetPassword :: "libs \<Rightarrow> env \<Rightarrow> io \<Rightarrow> body \<Rightarrow> world \<Rightarrow> response \<times> world" where
  "resetPassword L E i b w =
     (case validate (joi_email L) newPasswordSchema b of
        Some m \<Rightarrow> (message_response 400 m, w)
      | None \<Rightarrow>
          (case map_of b ''token'' of
             None \<Rightarrow> (internal_error, w)
           | Some token \<Rightarrow>
          (case map_of b ''newPassword'' of
             None \<Rightarrow> (internal_error, w)
           | Some newPassword \<Rightarrow>
               (case verify (jwt L) token (JWT_SECRET E) (clock i) of
                  Inr decoded \<Rightarrow>
                    (case findByPk (users w) (claim_id decoded) of
                       None \<Rightarrow> (message_response 400 ''Invalid token.'', w)
                     | Some usr \<Rightarrow>
                         (let hashedPassword = hash (bcrypt L) newPassword 10 (salt i)
                          in (message_response 200 ''Password reset successfully.'',
                              w\<lparr>users := user_update_password (users w) usr hashedPassword\<rparr>)))
                | Inl error \<Rightarrow>
                    if name error = ''TokenExpiredError''
                    then (message_response 400 ''Token expired.'', w)
                    else (internal_error, w)))))"

section \<open>The contracts of the packages\<close>

text \<open>
  Modelled from the spec: the Credential Manager (section 4.1 and section 8; the
  \<^verbatim>\<open>bcrypt\<close> package is not among the sources). For the plaintext \<open>p\<close>, hashed with
  \<open>r\<close> rounds and the salt \<open>s\<close>: verification of \<open>p\<close> against its own hash is true,
  and the hash is not the plaintext.
\<close>

definition credential_manager_ok :: "bcrypt_lib \<Rightarrow> string \<Rightarrow> nat \<Rightarrow> string \<Rightarrow> bool" where
  "credential_manager_ok B p r s = (compare B p (hash B p r s) \<and> hash B p r s \<noteq> p)"

text \<open>Decimal numerals and the splitting of a text at a character, for the text form
  of a token below.\<close>

definition digit_char :: "nat \<Rightarrow> char" where
  "digit_char d = ''0123456789'' ! d"

function show_nat :: "nat \<Rightarrow> string" where
  "show_nat n = (if n < 10 then [digit_char n] else show_nat (n div 10) @ [digit_char (n mod 10)])"
  by pat_completeness auto
termination
  by (relation "measure (\<lambda>n. n)") auto

declare show_nat.simps [simp del]

definition digit_value :: "char \<Rightarrow> nat" where
  "digit_value c = of_char c - 48"

definition read_nat :: "string \<Rightarrow> nat option" where
  "read_nat s =
     (if s = [] \<or> (\<exists>c \<in> set s. \<not> is_digit c) then None
      else Some (foldl (\<lambda>a c. 10 * a + digit_value c) 0 s))"

text \<open>The text before the first \<open>c\<close> and the text after it; \<open>None\<close> without a \<open>c\<close>.\<close>

definition split_first :: "char \<Rightarrow> string \<Rightarrow> (string \<times> string) option" where
  "split_first c s =
     (if c \<in> set s
      then Some (takeWhile (\<lambda>x. x \<noteq> c) s, tl (dropWhile (\<lambda>x. x \<noteq> c) s))
      else None)"

text \<open>
  Modelled from the spec: the Token Service (section 4.2 and section 6; the
  \<^verbatim>\<open>jsonwebtoken\<close> package is not among the sources). A token is a self-contained signed
  text: the signature, then the payload \<^verbatim>\<open>iat.exp.id\<close> that it signs. \<open>mac\<close> is the
  keyed signature function, a parameter.
\<close>

definition token_payload :: "claims \<Rightarrow> string" where
  "token_payload c =
     show_nat (claim_iat c) @ ''.'' @ show_nat (claim_exp c) @ ''.'' @ claim_id c"

text \<open>
  Modelled from the spec: \<^verbatim>\<open>issue(subject_id)\<close> of section 4.2. The token encodes the
  subject, the time of issue and the expiry, which is the time of issue plus the
  lifetime.
\<close>

definition token_issue :: "(string \<Rightarrow> string \<Rightarrow> nat) \<Rightarrow> string \<Rightarrow> string \<Rightarrow> nat \<Rightarrow> nat \<Rightarrow> string" where
  "token_issue mac subject secret lifetime now =
     (let payload = token_payload \<lparr>claim_id = subject, claim_iat = now, claim_exp = now + lifetime\<rparr>
      in show_nat (mac secret payload) @ ''.'' @ payload)"

text \<open>
  Modelled from the spec: the decoding half of \<^verbatim>\<open>verify(token)\<close> of section 4.2. The
  signature, the signed payload and the claims of a text of the form above; \<open>None\<close> for
  any other text.
\<close>

definition token_parse :: "string \<Rightarrow> (nat \<times> string \<times> claims) option" where
  "token_parse t =
     (case split_first CHR ''.'' t of
        None \<Rightarrow> None
      | Some (sg, payload) \<Rightarrow>
     (case split_first CHR ''.'' payload of
        None \<Rightarrow> None
      | Some (ia, rest) \<Rightarrow>
     (case split_first CHR ''.'' rest of
        None \<Rightarrow> None
      | Some (ex, subject) \<Rightarrow>
     (case read_nat sg of
        None \<Rightarrow> None
      | Some g \<Rightarrow>
     (case read_nat ia of
        None \<Rightarrow> None
      | Some a \<Rightarrow>
     (case read_nat ex of
        None \<Rightarrow> None
      | Some x \<Rightarrow>
          Some (g, payload, \<lparr>claim_id = subject, claim_iat = a, claim_exp = x\<rparr>)))))))"

text \<open>
  Modelled from the spec: \<^verbatim>\<open>verify(token)\<close> of section 4.2. A text that cannot be parsed
  is malformed; a signature that is not the one of the payload under the secret is
  invalid; a token is expired when the current time is at or after its expiry; else the
  claims are returned. The errors carry the names by which the handlers tell them apart.
\<close>

definition token_verify :: "(string \<Rightarrow> string \<Rightarrow> nat) \<Rightarrow> string \<Rightarrow> string \<Rightarrow> nat \<Rightarrow> exn + claims" where
  "token_verify mac t secret now =
     (case token_parse t of
        None \<Rightarrow> Inl (JsonWebTokenError ''jwt malformed'')
      | Some (g, payload, c) \<Rightarrow>
          if g \<noteq> mac secret payload then Inl (JsonWebTokenError ''invalid signature'')
          else if claim_exp c \<le> now then Inl TokenExpiredError
          else Inr c)"

text \<open>Modelled from the spec: the Token Service as a token package.\<close>

definition token_service :: "(string \<Rightarrow> string \<Rightarrow> nat) \<Rightarrow> jwt_lib" where
  "token_service mac = \<lparr>sign = token_issue mac, verify = token_verify mac\<rparr>"

section \<open>A concrete system\<close>

text \<open>
  One instance of the collaborators, small enough to run: a keyed checksum as
  signature, a salted reversal as password hash (with the two properties of
  \<open>credential_manager_ok\<close> and nothing more), an address test that asks for an
  \<^verbatim>\<open>@\<close>, and a transport that delivers. The theorems below are about every instance;
  this one shows them at work on concrete requests.
\<close>

definition checksum :: "string \<Rightarrow> string \<Rightarrow> nat" where
  "checksum secret payload =
     foldl (\<lambda>a c. (a * 33 + of_char c) mod 65521) 5381 (secret @ payload)"

definition reversing_bcrypt :: bcrypt_lib where
  "reversing_bcrypt =
     \<lparr>hash = (\<lambda>data rounds s. ''$2b$'' @ s @ rev data),
      compare = (\<lambda>data encrypted.
         take 4 encrypted = ''$2b$'' \<and> length data \<le> length encrypted \<and>
         drop (length encrypted - length data) encrypted = rev data)\<rparr>"

definition demo_libs :: libs where
  "demo_libs =
     \<lparr>jwt = token_service checksum, bcrypt = reversing_bcrypt,
      joi_email = (\<lambda>s. CHR ''@'' \<in> set s), mail_delivers = (\<lambda>m. True)\<rparr>"

definition demo_env :: env where
  "demo_env = \<lparr>JWT_SECRET = ''s3cret'', FRONTEND_URL = ''http://localhost:5173''\<rparr>"

definition alice :: user where
  "alice = \<lparr>user_id = ''u-1'', username = ''alice01'',
            password = ''$2b$NaCl!1fedcbA'', email = ''a@x.com''\<rparr>"

definition demo_world :: world where
  "demo_world = \<lparr>users = [alice], mail_calls = []\<rparr>"

definition demo_io :: "nat \<Rightarrow> io" where
  "demo_io t = \<lparr>clock = t, salt = ''NaCl'', uuid = ''u-2''\<rparr>"

section \<open>Numerals and tokens\<close>

text \<open>Reading back a printed numeral gives the number; a numeral has no dot.\<close>

lemma digit_char_props:
  assumes "d < 10"
  shows "is_digit (digit_char d)" and "digit_value (digit_char d) = d"
proof -
  from assms consider "d = 0" | "d = 1" | "d = 2" | "d = 3" | "d = 4"
    | "d = 5" | "d = 6" | "d = 7" | "d = 8" | "d = 9"
    by atomize_elim arith
  then have "is_digit (digit_char d) \<and> digit_value (digit_char d) = d"
    by cases (simp_all add: digit_char_def is_digit_def digit_value_def)
  then show "is_digit (digit_char d)" and "digit_value (digit_char d) = d"
    by simp_all
qed

lemma show_nat_digits: "c \<in> set (show_nat n) \<Longrightarrow> is_digit c"
proof (induction n arbitrary: c rule: show_nat.induct)
  case (1 n)
  show ?case
  proof (cases "n < 10")
    case True
    with "1.prems" show ?thesis
      by (simp add: show_nat.simps [of n] digit_char_props(1))
  next
    case False
    with "1.prems" "1.IH" show ?thesis
      by (auto simp add: show_nat.simps [of n] digit_char_props(1))
  qed
qed

lemma show_nat_not_empty: "show_nat n \<noteq> []"
  by (subst show_nat.simps) simp

lemma read_nat_snoc:
  assumes "read_nat s = Some m" and "is_digit c"
  shows "read_nat (s @ [c]) = Some (10 * m + digit_value c)"
  using assms by (auto simp add: read_nat_def split: if_splits)

lemma read_show_nat: "read_nat (show_nat n) = Some n"
proof (induction n rule: show_nat.induct)
  case (1 n)
  show ?case
  proof (cases "n < 10")
    case True
    then show ?thesis
      by (simp add: show_nat.simps [of n] read_nat_def digit_char_props)
  next
    case False
    then have "read_nat (show_nat (n div 10)) = Some (n div 10)"
      using "1.IH" by simp
    then have "read_nat (show_nat (n div 10) @ [digit_char (n mod 10)])
                 = Some (10 * (n div 10) + digit_value (digit_char (n mod 10)))"
      by (rule read_nat_snoc) (simp add: digit_char_props(1))
    with False show ?thesis
      by (simp add: show_nat.simps [of n] digit_char_props(2))
  qed
qed

lemma dot_not_digit: "\<not> is_digit CHR ''.''"
  by (simp add: is_digit_def)

lemma show_nat_no_dot: "CHR ''.'' \<notin> set (show_nat n)"
  using show_nat_digits dot_not_digit by blast

lemma split_first_append:
  assumes "c \<notin> set a"
  shows "split_first c (a @ c # b) = Some (a, b)"
proof -
  have "takeWhile (\<lambda>x. x \<noteq> c) (a @ c # b) = a"
    using assms by (induction a) auto
  moreover have "dropWhile (\<lambda>x. x \<noteq> c) (a @ c # b) = c # b"
    using assms by (induction a) auto
  ultimately show ?thesis
    by (simp add: split_first_def)
qed

text \<open>
  A token of the service parses back into what was signed, so that its verification
  under the same secret depends on the time only.
\<close>

lemma token_parse_issue:
  "token_parse (token_issue mac subject secret lifetime now) =
     Some (mac secret (token_payload \<lparr>claim_id = subject, claim_iat = now, claim_exp = now + lifetime\<rparr>),
           token_payload \<lparr>claim_id = subject, claim_iat = now, claim_exp = now + lifetime\<rparr>,
           \<lparr>claim_id = subject, claim_iat = now, claim_exp = now + lifetime\<rparr>)"
  by (simp add: token_parse_def token_issue_def token_payload_def Let_def
      split_first_append show_nat_no_dot read_show_nat)

lemma token_verify_issue:
  "token_verify mac (token_issue mac subject secret lifetime now) secret t =
     (if now + lifetime \<le> t then Inl TokenExpiredError
      else Inr \<lparr>claim_id = subject, claim_iat = now, claim_exp = now + lifetime\<rparr>)"
  by (simp add: token_verify_def token_parse_issue)

text \<open>A token has no space when its subject has none, and is never empty.\<close>

lemma space_not_digit: "\<not> is_digit CHR '' ''"
  by (simp add: is_digit_def)

lemma show_nat_no_space: "CHR '' '' \<notin> set (show_nat n)"
  using show_nat_digits space_not_digit by blast

lemma token_issue_no_space:
  assumes "CHR '' '' \<notin> set subject"
  shows "CHR '' '' \<notin> set (token_issue mac subject secret lifetime now)"
  using assms by (simp add: token_issue_def token_payload_def Let_def show_nat_no_space)

lemma token_issue_not_empty: "token_issue mac subject secret lifetime now \<noteq> []"
  by (simp add: token_issue_def Let_def show_nat_not_empty)

section \<open>The Authorization header\<close>

text \<open>
  The second segment of \<open>scheme token\<close> is the token, whatever the scheme; a header has
  no second segment exactly when it has no space.
\<close>

lemma js_split_no_sep: "sep \<notin> set s \<Longrightarrow> js_split sep s = [s]"
  by (induction s) auto

lemma js_split_append:
  "sep \<notin> set a \<Longrightarrow> js_split sep (a @ sep # b) = a # js_split sep b"
  by (induction a) auto

lemma js_split_second:
  assumes "sep \<notin> set a" and "sep \<notin> set t"
  shows "js_index (js_split sep (a @ sep # t)) 1 = Some t"
  using assms by (simp add: js_split_append js_split_no_sep js_index_def)

lemma js_split_not_empty: "js_split sep s \<noteq> []"
  by (induction s) (auto split: list.splits)

lemma js_split_no_second:
  "js_index (js_split sep s) 1 = None \<longleftrightarrow> sep \<notin> set s"
proof (induction s)
  case Nil
  show ?case by (simp add: js_index_def)
next
  case (Cons c s)
  then show ?case
    using js_split_not_empty [of sep s]
    by (cases "js_split sep s") (auto simp add: js_index_def split: if_splits)
qed

lemma verifyToken_token:
  assumes "CHR '' '' \<notin> set scheme" and "CHR '' '' \<notin> set tok" and "tok \<noteq> []"
  shows "verifyToken L E i (Some (scheme @ '' '' @ tok)) =
           (case verify (jwt L) tok (JWT_SECRET E) (clock i) of
              Inl err \<Rightarrow> Reply (message_response 401 ''Invalid token.'')
            | Inr decoded \<Rightarrow> Next (claim_id decoded))"
  using assms js_split_second [of "CHR '' ''" scheme tok]
  by (simp add: verifyToken_def)


section \<open>Validated bodies\<close>

text \<open>A body that a schema accepts has every key of the schema.\<close>

lemma validate_keys_present:
  assumes "validate_keys email_ok schema b = None" and "ks \<in> set schema"
  shows "\<exists>s. map_of b (key ks) = Some s"
  using assms
proof (induction schema)
  case Nil
  then show ?case by simp
next
  case (Cons k rest)
  then show ?case
    by (auto simp add: validate_key_def split: option.splits if_splits)
qed

lemma validate_present:
  assumes "validate email_ok schema b = None" and "ks \<in> set schema"
  shows "\<exists>s. map_of b (key ks) = Some s"
proof -
  from assms(1) have "validate_keys email_ok schema b = None"
    by (simp add: validate_def split: option.splits)
  then show ?thesis
    using assms(2) by (rule validate_keys_present)
qed

lemma newPasswordSchema_fields:
  assumes "validate email_ok newPasswordSchema b = None"
  shows "\<exists>t np. map_of b ''token'' = Some t \<and> map_of b ''newPassword'' = Some np"
  using validate_present [OF assms, of "newPasswordSchema ! 0"]
    validate_present [OF assms, of "newPasswordSchema ! 1"]
  by (simp add: newPasswordSchema_def)

section \<open>The paths through the handlers\<close>

lemma select_attributes_profile:
  "select_attributes [''id'', ''username'', ''email''] u =
     JObject [(''id'', JString (user_id u)), (''username'', JString (username u)),
              (''email'', JString (email u))]"
  by (simp add: select_attributes_def List.map_filter_def column_def)

lemma select_attributes_without_email:
  "select_attributes [''id'', ''username''] u =
     JObject [(''id'', JString (user_id u)), (''username'', JString (username u))]"
  by (simp add: select_attributes_def List.map_filter_def column_def)

lemma find_snoc_fresh:
  assumes "\<forall>r \<in> set xs. \<not> P r" and "P x"
  shows "find P (xs @ [x]) = Some x"
  using assms by (induction xs) auto

lemma login_success:
  assumes "validate (joi_email L) loginSchema [(''username'', u), (''password'', p)] = None"
    and "findOne_username (users w) u = Some usr"
    and "compare (bcrypt L) p (password usr)"
  shows "login L E i [(''username'', u), (''password'', p)] w =
           Response 200
             (JObject [(''message'', JString ''Login successful.''),
                       (''token'', JString (sign (jwt L) (user_id usr) (JWT_SECRET E) 3600 (clock i)))])"
  using assms by (simp add: login_def)

lemma resetPasswordRequest_mail:
  assumes "validate (joi_email L) resetPasswordSchema [(''email'', e)] = None"
    and "findOne_email (users w) e = Some usr"
  shows "mail_calls (snd (resetPasswordRequest L E i [(''email'', e)] w)) =
           mail_calls w @
             [\<lparr>mail_to = e, mail_subject = ''Password Reset Request'',
               mail_username = username usr,
               mail_link = FRONTEND_URL E @ ''/reset-password?token='' @
                 sign (jwt L) (user_id usr) (JWT_SECRET E) 3600 (clock i)\<rparr>]"
  using assms
  by (simp add: resetPasswordRequest_def sendResetMail_def Let_def split: prod.splits)

lemma resetPassword_accepts:
  assumes "validate (joi_email L) newPasswordSchema [(''token'', t), (''newPassword'', np)] = None"
    and "verify (jwt L) t (JWT_SECRET E) (clock i) = Inr d"
    and "findByPk (users w) (claim_id d) = Some usr"
  shows "resetPassword L E i [(''token'', t), (''newPassword'', np)] w =
           (message_response 200 ''Password reset successfully.'',
            w\<lparr>users := user_update_password (users w) usr (hash (bcrypt L) np 10 (salt i))\<rparr>)"
  using assms by (simp add: resetPassword_def)

lemma resetPassword_200:
  assumes "fst (resetPassword L E i [(''token'', t), (''newPassword'', np)] w) =
             message_response 200 ''Password reset successfully.''"
  shows "\<exists>d usr. verify (jwt L) t (JWT_SECRET E) (clock i) = Inr d
           \<and> findByPk (users w) (claim_id d) = Some usr"
  using assms
  by (auto simp add: resetPassword_def message_response_def internal_error_def
      split: option.splits sum.splits if_splits)

lemma resetPassword_expired:
  assumes "validate (joi_email L) newPasswordSchema [(''token'', t), (''newPassword'', np)] = None"
    and "verify (jwt L) t (JWT_SECRET E) (clock i) = Inl TokenExpiredError"
  shows "resetPassword L E i [(''token'', t), (''newPassword'', np)] w =
           (message_response 400 ''Token expired.'', w)"
  using assms by (simp add: resetPassword_def)

text \<open>
  Under every token package the middleware and reset-confirm accept alike: both hand the
  token to \<^verbatim>\<open>jwt.verify\<close> with \<^verbatim>\<open>JWT_SECRET\<close>, and login and reset-request sign alike.
\<close>

lemma verifyToken_and_resetPassword_accept_alike:
  "(validate (joi_email L) loginSchema [(''username'', u), (''password'', p)] = None
      \<and> findOne_username (users w) u = Some usr \<and> compare (bcrypt L) p (password usr)
      \<and> validate (joi_email L) resetPasswordSchema [(''email'', e)] = None
      \<and> findOne_email (users w) e = Some usr
    \<longrightarrow> (\<exists>tok. login L E i [(''username'', u), (''password'', p)] w =
                  Response 200 (JObject [(''message'', JString ''Login successful.''),
                                         (''token'', JString tok)])
            \<and> map mail_link (mail_calls (snd (resetPasswordRequest L E i [(''email'', e)] w))) =
                  map mail_link (mail_calls w) @ [FRONTEND_URL E @ ''/reset-password?token='' @ tok]))
   \<and> (CHR '' '' \<notin> set t \<and> t \<noteq> []
      \<and> validate (joi_email L) newPasswordSchema [(''token'', t), (''newPassword'', np)] = None
    \<longrightarrow> (\<forall>k usr'. verifyToken L E i (Some (''Bearer '' @ t)) = Next k
                   \<and> findByPk (users w) k = Some usr'
            \<longrightarrow> resetPassword L E i [(''token'', t), (''newPassword'', np)] w =
                  (message_response 200 ''Password reset successfully.'',
                   w\<lparr>users := user_update_password (users w) usr'
                                 (hash (bcrypt L) np 10 (salt i))\<rparr>))
        \<and> (fst (resetPassword L E i [(''token'', t), (''newPassword'', np)] w) =
              message_response 200 ''Password reset successfully.''
            \<longrightarrow> status (profile L E i (Some (''Bearer '' @ t)) w) = 200))"
proof (intro conjI impI allI)
  assume a: "validate (joi_email L) loginSchema [(''username'', u), (''password'', p)] = None
      \<and> findOne_username (users w) u = Some usr \<and> compare (bcrypt L) p (password usr)
      \<and> validate (joi_email L) resetPasswordSchema [(''email'', e)] = None
      \<and> findOne_email (users w) e = Some usr"
  let ?tok = "sign (jwt L) (user_id usr) (JWT_SECRET E) 3600 (clock i)"
  have "login L E i [(''username'', u), (''password'', p)] w =
          Response 200 (JObject [(''message'', JString ''Login successful.''),
                                 (''token'', JString ?tok)])"
    using a by (simp add: login_success)
  moreover have "map mail_link (mail_calls (snd (resetPasswordRequest L E i [(''email'', e)] w))) =
      map mail_link (mail_calls w) @ [FRONTEND_URL E @ ''/reset-password?token='' @ ?tok]"
    using a by (simp add: resetPasswordRequest_mail)
  ultimately show "\<exists>tok. login L E i [(''username'', u), (''password'', p)] w =
                  Response 200 (JObject [(''message'', JString ''Login successful.''),
                                         (''token'', JString tok)])
            \<and> map mail_link (mail_calls (snd (resetPasswordRequest L E i [(''email'', e)] w))) =
                  map mail_link (mail_calls w) @ [FRONTEND_URL E @ ''/reset-password?token='' @ tok]"
    by blast
next
  fix k usr'
  assume b: "CHR '' '' \<notin> set t \<and> t \<noteq> []
      \<and> validate (joi_email L) newPasswordSchema [(''token'', t), (''newPassword'', np)] = None"
    and c: "verifyToken L E i (Some (''Bearer '' @ t)) = Next k \<and> findByPk (users w) k = Some usr'"
  have "verifyToken L E i (Some (''Bearer '' @ t)) =
           (case verify (jwt L) t (JWT_SECRET E) (clock i) of
              Inl err \<Rightarrow> Reply (message_response 401 ''Invalid token.'')
            | Inr decoded \<Rightarrow> Next (claim_id decoded))"
    using b verifyToken_token [of "''Bearer''" t L E i] by simp
  with c obtain d where "verify (jwt L) t (JWT_SECRET E) (clock i) = Inr d" and "claim_id d = k"
    by (auto split: sum.splits)
  with b c show "resetPassword L E i [(''token'', t), (''newPassword'', np)] w =
                  (message_response 200 ''Password reset successfully.'',
                   w\<lparr>users := user_update_password (users w) usr'
                                 (hash (bcrypt L) np 10 (salt i))\<rparr>)"
    by (simp add: resetPassword_accepts)
next
  assume b: "CHR '' '' \<notin> set t \<and> t \<noteq> []
      \<and> validate (joi_email L) newPasswordSchema [(''token'', t), (''newPassword'', np)] = None"
    and c: "fst (resetPassword L E i [(''token'', t), (''newPassword'', np)] w) =
              message_response 200 ''Password reset successfully.''"
  from c obtain d usr' where d: "verify (jwt L) t (JWT_SECRET E) (clock i) = Inr d"
      "findByPk (users w) (claim_id d) = Some usr'"
    using resetPassword_200 by blast
  have "verifyToken L E i (Some (''Bearer '' @ t)) =
           (case verify (jwt L) t (JWT_SECRET E) (clock i) of
              Inl err \<Rightarrow> Reply (message_response 401 ''Invalid token.'')
            | Inr decoded \<Rightarrow> Next (claim_id decoded))"
    using b verifyToken_token [of "''Bearer''" t L E i] by simp
  with d show "status (profile L E i (Some (''Bearer '' @ t)) w) = 200"
    by (simp add: profile_def profile_route_def)
qed


text \<open>
  What \<^verbatim>\<open>resetPassword\<close> answers when the verification of the token throws: only the
  error named \<^verbatim>\<open>TokenExpiredError\<close> has an answer of its own.
\<close>

lemma resetPassword_verify_error:
  assumes "validate (joi_email L) newPasswordSchema b = None"
    and "map_of b ''token'' = Some t"
    and "map_of b ''newPassword'' = Some np"
    and "verify (jwt L) t (JWT_SECRET E) (clock i) = Inl err"
  shows "resetPassword L E i b w =
           (if name err = ''TokenExpiredError'' then message_response 400 ''Token expired.''
            else message_response 500 ''Internal server error.'', w)"
  using assms by (simp add: resetPassword_def internal_error_def)

section \<open>The concrete system at work\<close>

lemmas char_classes = is_lower_def is_upper_def is_digit_def is_special_def

lemmas validation_defs =
  validate_def validate_key_def error_message_def password_pattern_def char_classes

lemma demo_login_valid:
  "validate (joi_email demo_libs) loginSchema [(''username'', ''alice01''), (''password'', p)] =
     (if p = [] then Some (quoted ''password'' @ '' is not allowed to be empty'') else None)"
  by (simp add: validation_defs loginSchema_def default_message_def)

lemma demo_register_valid:
  "validate (joi_email demo_libs) registerSchema
     [(''username'', ''bobby99''), (''password'', ''Abcdef1!''), (''email'', ''b@x.com'')] = None"
  by (simp add: validation_defs registerSchema_def demo_libs_def)

lemma demo_reset_request_valid:
  "validate (joi_email demo_libs) resetPasswordSchema [(''email'', ''z@x.com'')] = None"
  "validate (joi_email demo_libs) resetPasswordSchema [(''email'', ''a@x.com'')] = None"
  by (simp_all add: validation_defs resetPasswordSchema_def demo_libs_def)

lemma demo_new_password_valid:
  "validate (joi_email demo_libs) newPasswordSchema [(''token'', t), (''newPassword'', ''Zyxwvu9?'')] =
     (if t = [] then Some (quoted ''token'' @ '' is not allowed to be empty'') else None)"
  by (simp add: validation_defs newPasswordSchema_def default_message_def)

lemma demo_clock: "clock (demo_io t) = t"
  by (simp add: demo_io_def)

lemma demo_token:
  "sign (jwt demo_libs) ''u-1'' (JWT_SECRET demo_env) 3600 1000 = ''246.1000.4600.u-1''"
  by (simp add: demo_libs_def demo_env_def token_service_def token_issue_def token_payload_def
      checksum_def digit_char_def show_nat.simps)

lemma demo_reset_token:
  "sign (jwt demo_libs) ''u-1'' (JWT_SECRET demo_env) 3600 1200 = ''13145.1200.4800.u-1''"
  by (simp add: demo_libs_def demo_env_def token_service_def token_issue_def token_payload_def
      checksum_def digit_char_def show_nat.simps)

lemma demo_alice_id: "user_id alice = ''u-1''"
  by (simp add: alice_def)

lemma demo_verify:
  "verify (jwt demo_libs) ''246.1000.4600.u-1'' (JWT_SECRET demo_env) t =
     (if 4600 \<le> t then Inl TokenExpiredError
      else Inr \<lparr>claim_id = ''u-1'', claim_iat = 1000, claim_exp = 4600\<rparr>)"
proof -
  have "verify (jwt demo_libs) (sign (jwt demo_libs) ''u-1'' (JWT_SECRET demo_env) 3600 1000)
          (JWT_SECRET demo_env) t =
     (if 4600 \<le> t then Inl TokenExpiredError
      else Inr \<lparr>claim_id = ''u-1'', claim_iat = 1000, claim_exp = 4600\<rparr>)"
    by (simp add: demo_libs_def token_service_def token_verify_issue)
  then show ?thesis
    by (simp add: demo_token)
qed

lemma demo_verify_bad_signature:
  "verify (jwt demo_libs) ''247.1000.4600.u-1'' (JWT_SECRET demo_env) t =
     Inl (JsonWebTokenError ''invalid signature'')"
  by (simp add: demo_libs_def demo_env_def token_service_def token_verify_def token_parse_def
      split_first_def read_nat_def is_digit_def digit_value_def checksum_def)

lemma demo_verify_malformed:
  "verify (jwt demo_libs) ''garbage'' (JWT_SECRET demo_env) t =
     Inl (JsonWebTokenError ''jwt malformed'')"
  by (simp add: demo_libs_def token_service_def token_verify_def token_parse_def
      split_first_def)

lemma demo_find:
  "findOne_username (users demo_world) ''alice01'' = Some alice"
  "findOne_username (users \<lparr>users = [], mail_calls = []\<rparr>) ''alice01'' = None"
  "findOne_email (users demo_world) ''a@x.com'' = Some alice"
  "findOne_email (users demo_world) ''z@x.com'' = None"
  "findByPk (users demo_world) ''u-1'' = Some alice"
  by (simp_all add: findOne_username_def findOne_email_def findByPk_def demo_world_def alice_def)

lemma demo_compare:
  "compare (bcrypt demo_libs) ''Abcdef1!'' (password alice)"
  "\<not> compare (bcrypt demo_libs) ''wrong'' (password alice)"
  by (simp_all add: demo_libs_def reversing_bcrypt_def alice_def)

lemma demo_credential_manager:
  "credential_manager_ok (bcrypt demo_libs) ''Abcdef1!'' 10 (salt (demo_io 0))"
  by (simp add: credential_manager_ok_def demo_libs_def reversing_bcrypt_def demo_io_def)

lemma demo_verifyToken:
  "verifyToken demo_libs demo_env (demo_io t) (Some ''Bearer 246.1000.4600.u-1'') =
     (if 4600 \<le> t then Reply (message_response 401 ''Invalid token.'') else Next ''u-1'')"
  using verifyToken_token [of "''Bearer''" "''246.1000.4600.u-1''" demo_libs demo_env "demo_io t"]
  by (simp add: demo_verify demo_io_def)

lemma demo_verifyToken_bad_signature:
  "verifyToken demo_libs demo_env (demo_io t) (Some ''Bearer 247.1000.4600.u-1'') =
     Reply (message_response 401 ''Invalid token.'')"
  using verifyToken_token [of "''Bearer''" "''247.1000.4600.u-1''" demo_libs demo_env "demo_io t"]
  by (simp add: demo_verify_bad_signature demo_io_def)

section \<open>The claims\<close>

text \<open>
  C1. In the password-reset confirm operation, a token whose verification fails with
  Expired gives TokenExpired, and one whose verification fails for another reason
  (invalid signature, malformed) gives InvalidToken, before any user record is read or
  written. The handler does the first; for the second it answers 500
  \<^verbatim>\<open>Internal server error.\<close>, where its own interface description promises 400 for an
  invalid token. Here is the handler on a token with a wrong signature and on one that
  is not a token, both with a new password that the schema accepts: the store is
  untouched, the answer is the 500.
\<close>

theorem resetPassword_bad_signature_is_500:
  "verify (jwt demo_libs) ''247.1000.4600.u-1'' (JWT_SECRET demo_env) (clock (demo_io 1000)) =
     Inl (JsonWebTokenError ''invalid signature'')
   \<and> resetPassword demo_libs demo_env (demo_io 1000)
       [(''token'', ''247.1000.4600.u-1''), (''newPassword'', ''Zyxwvu9?'')] demo_world =
     (message_response 500 ''Internal server error.'', demo_world)
   \<and> verify (jwt demo_libs) ''garbage'' (JWT_SECRET demo_env) (clock (demo_io 1000)) =
     Inl (JsonWebTokenError ''jwt malformed'')
   \<and> resetPassword demo_libs demo_env (demo_io 1000)
       [(''token'', ''garbage''), (''newPassword'', ''Zyxwvu9?'')] demo_world =
     (message_response 500 ''Internal server error.'', demo_world)"
  using
    resetPassword_verify_error [of demo_libs "[(''token'', ''247.1000.4600.u-1''), (''newPassword'', ''Zyxwvu9?'')]"
      "''247.1000.4600.u-1''" "''Zyxwvu9?''" demo_env "demo_io 1000"
      "JsonWebTokenError ''invalid signature''" demo_world]
    resetPassword_verify_error [of demo_libs "[(''token'', ''garbage''), (''newPassword'', ''Zyxwvu9?'')]"
      "''garbage''" "''Zyxwvu9?''" demo_env "demo_io 1000"
      "JsonWebTokenError ''jwt malformed''" demo_world]
  by (simp add: demo_new_password_valid demo_verify_bad_signature demo_verify_malformed)

text \<open>
  C2, as amended. In the profile retrieval, for every presented bearer token, every
  failure of the token verification (expiry, bad signature, malformed token alike) maps to
  one and the same failure: status 401 with the message \<^verbatim>\<open>Invalid token.\<close>; expiry is
  not told apart from the other failures.
\<close>

theorem verifyToken_every_failure_invalid_token:
  assumes "CHR '' '' \<notin> set scheme" and "CHR '' '' \<notin> set tok" and "tok \<noteq> []"
    and "verify (jwt L) tok (JWT_SECRET E) (clock i) = Inl err"
  shows "verifyToken L E i (Some (scheme @ '' '' @ tok)) =
           Reply (message_response 401 ''Invalid token.'')
       \<and> profile L E i (Some (scheme @ '' '' @ tok)) w = message_response 401 ''Invalid token.''"
  using assms verifyToken_token [of scheme tok L E i]
  by (simp add: profile_def profile_route_def)

theorem verifyToken_every_failure_invalid_token_witness:
  "verify (jwt demo_libs) ''246.1000.4600.u-1'' (JWT_SECRET demo_env) (clock (demo_io 5000)) =
     Inl TokenExpiredError
   \<and> verifyToken demo_libs demo_env (demo_io 5000) (Some ''Bearer 246.1000.4600.u-1'') =
     Reply (message_response 401 ''Invalid token.'')
   \<and> profile demo_libs demo_env (demo_io 5000) (Some ''Bearer 246.1000.4600.u-1'') demo_world =
     message_response 401 ''Invalid token.''"
  using verifyToken_every_failure_invalid_token
    [of "''Bearer''" "''246.1000.4600.u-1''" demo_libs demo_env "demo_io 5000" TokenExpiredError
      demo_world]
  by (simp add: demo_verify demo_io_def)

text \<open>
  C2, as stated, asks for an expired token and a token with a bad signature to map to
  distinct error kinds. An expired token and one with a wrong signature get the same
  reply.
\<close>

theorem verifyToken_expired_and_bad_signature_same_reply:
  "verify (jwt demo_libs) ''246.1000.4600.u-1'' (JWT_SECRET demo_env) (clock (demo_io 5000)) =
     Inl TokenExpiredError
   \<and> verify (jwt demo_libs) ''247.1000.4600.u-1'' (JWT_SECRET demo_env) (clock (demo_io 5000)) =
     Inl (JsonWebTokenError ''invalid signature'')
   \<and> verifyToken demo_libs demo_env (demo_io 5000) (Some ''Bearer 246.1000.4600.u-1'') =
     Reply (message_response 401 ''Invalid token.'')
   \<and> verifyToken demo_libs demo_env (demo_io 5000) (Some ''Bearer 246.1000.4600.u-1'') =
     verifyToken demo_libs demo_env (demo_io 5000) (Some ''Bearer 247.1000.4600.u-1'')"
  by (simp add: demo_verify demo_verify_bad_signature demo_verifyToken
      demo_verifyToken_bad_signature demo_clock)



text \<open>
  C4. For every expired reset token and every new password, the password-reset confirm
  operation leaves the store as it was (so every password hash is what it was before)
  and fails with TokenExpired, 400 \<^verbatim>\<open>Token expired.\<close>; the one other answer is
  the message of the schema, for a body that the schema of the operation does not accept
  (the validation that the flow takes as its precondition).
\<close>

theorem resetPassword_expired_no_write:
  assumes field: "map_of b ''token'' = Some t"
    and expired: "verify (jwt L) t (JWT_SECRET E) (clock i) = Inl TokenExpiredError"
  shows "snd (resetPassword L E i b w) = w
       \<and> fst (resetPassword L E i b w) =
           (case validate (joi_email L) newPasswordSchema b of
              None \<Rightarrow> message_response 400 ''Token expired.''
            | Some m \<Rightarrow> message_response 400 m)"
proof (cases "validate (joi_email L) newPasswordSchema b")
  case None
  then obtain np where "map_of b ''newPassword'' = Some np"
    using newPasswordSchema_fields by blast
  with None assms show ?thesis
    by (simp add: resetPassword_def)
next
  case (Some m)
  then show ?thesis
    by (simp add: resetPassword_def)
qed

theorem resetPassword_expired_no_write_witness:
  "verify (jwt demo_libs) ''246.1000.4600.u-1'' (JWT_SECRET demo_env) (clock (demo_io 5000)) =
     Inl TokenExpiredError
   \<and> resetPassword demo_libs demo_env (demo_io 5000)
       [(''token'', ''246.1000.4600.u-1''), (''newPassword'', ''Zyxwvu9?'')] demo_world =
     (message_response 400 ''Token expired.'', demo_world)"
  using resetPassword_expired_no_write
    [of "[(''token'', ''246.1000.4600.u-1''), (''newPassword'', ''Zyxwvu9?'')]"
      "''246.1000.4600.u-1''" demo_libs demo_env "demo_io 5000" demo_world]
  by (simp add: demo_verify demo_new_password_valid demo_clock prod_eq_iff)

text \<open>
  C5. For every valid registration input (username, password, email) with no prior
  username or email conflict in the store, registration succeeds and returns the new
  user id, the stored password hash verifies against the original plaintext password,
  and the stored hash is not the plaintext. The id is the UUID drawn for the new row,
  which no row has yet; what the hashing package does on this password is the contract
  \<open>credential_manager_ok\<close>.
\<close>

theorem register_stores_verifying_hash:
  assumes valid: "validate (joi_email L) registerSchema b = None"
    and fields: "map_of b ''username'' = Some u" "map_of b ''password'' = Some p"
      "map_of b ''email'' = Some e"
    and no_conflict: "\<forall>r \<in> set (users w). username r \<noteq> u \<and> email r \<noteq> e"
    and fresh: "\<forall>r \<in> set (users w). user_id r \<noteq> uuid i"
    and cm: "credential_manager_ok (bcrypt L) p 10 (salt i)"
  shows "\<exists>stored w'.
           register L i b w =
             (Response 201 (JObject [(''message'', JString ''User registered successfully.''),
                                     (''userId'', JString (uuid i))]), w')
         \<and> findByPk (users w') (uuid i) = Some stored
         \<and> username stored = u \<and> email stored = e
         \<and> password stored = hash (bcrypt L) p 10 (salt i)
         \<and> compare (bcrypt L) p (password stored)
         \<and> password stored \<noteq> p"
proof -
  let ?h = "hash (bcrypt L) p 10 (salt i)"
  let ?new = "\<lparr>user_id = uuid i, username = u, password = ?h, email = e\<rparr>"
  have created: "User_create (users w) (uuid i) u ?h e = Inr (?new, users w @ [?new])"
    using no_conflict fresh by (auto simp add: User_create_def Let_def)
  have reg: "register L i b w =
      (Response 201 (JObject [(''message'', JString ''User registered successfully.''),
                              (''userId'', JString (uuid i))]),
       w\<lparr>users := users w @ [?new]\<rparr>)"
    using valid fields created by (simp add: register_def)
  from fresh have "\<forall>r \<in> set (users w). \<not> (user_id r = uuid i)"
    by simp
  then have found: "findByPk (users w @ [?new]) (uuid i) = Some ?new"
    unfolding findByPk_def by (rule find_snoc_fresh) simp
  from cm have "compare (bcrypt L) p ?h" and "?h \<noteq> p"
    by (simp_all add: credential_manager_ok_def)
  with reg found show ?thesis
    by simp
qed

theorem register_stores_verifying_hash_witness:
  "\<exists>stored w'.
     register demo_libs (demo_io 0)
       [(''username'', ''bobby99''), (''password'', ''Abcdef1!''), (''email'', ''b@x.com'')]
       demo_world =
       (Response 201 (JObject [(''message'', JString ''User registered successfully.''),
                               (''userId'', JString ''u-2'')]), w')
     \<and> findByPk (users w') ''u-2'' = Some stored
     \<and> compare (bcrypt demo_libs) ''Abcdef1!'' (password stored)
     \<and> password stored \<noteq> ''Abcdef1!''"
proof -
  have "\<forall>r \<in> set (users demo_world). username r \<noteq> ''bobby99'' \<and> email r \<noteq> ''b@x.com''"
    and "\<forall>r \<in> set (users demo_world). user_id r \<noteq> uuid (demo_io 0)"
    by (simp_all add: demo_world_def alice_def demo_io_def)
  then show ?thesis
    using register_stores_verifying_hash
      [of demo_libs "[(''username'', ''bobby99''), (''password'', ''Abcdef1!''), (''email'', ''b@x.com'')]"
        "''bobby99''" "''Abcdef1!''" "''b@x.com''" demo_world "demo_io 0"]
      demo_register_valid demo_credential_manager
    by (simp add: demo_io_def) blast
qed

text \<open>
  C6. For every user and correct (username, password) pair, login succeeds and returns a
  token whose verification, at any time strictly before one hour after issuance,
  succeeds and decodes to that user's id; verification of the same token at or after
  expiry fails with Expired. The token package is the Token Service of the
  specification.
\<close>

theorem login_token_valid_for_one_hour:
  assumes service: "jwt L = token_service mac"
    and valid: "validate (joi_email L) loginSchema [(''username'', u), (''password'', p)] = None"
    and found: "findOne_username (users w) u = Some usr"
    and correct: "compare (bcrypt L) p (password usr)"
  shows "\<exists>tok. login L E i [(''username'', u), (''password'', p)] w =
                 Response 200 (JObject [(''message'', JString ''Login successful.''),
                                        (''token'', JString tok)])
          \<and> (\<forall>t. t < clock i + 3600 \<longrightarrow>
                (\<exists>d. verify (jwt L) tok (JWT_SECRET E) t = Inr d \<and> claim_id d = user_id usr))
          \<and> (\<forall>t. clock i + 3600 \<le> t \<longrightarrow>
                verify (jwt L) tok (JWT_SECRET E) t = Inl TokenExpiredError)"
proof -
  let ?tok = "sign (jwt L) (user_id usr) (JWT_SECRET E) 3600 (clock i)"
  have "login L E i [(''username'', u), (''password'', p)] w =
          Response 200 (JObject [(''message'', JString ''Login successful.''),
                                 (''token'', JString ?tok)])"
    using valid found correct by (rule login_success)
  moreover have "verify (jwt L) ?tok (JWT_SECRET E) t =
      (if clock i + 3600 \<le> t then Inl TokenExpiredError
       else Inr \<lparr>claim_id = user_id usr, claim_iat = clock i, claim_exp = clock i + 3600\<rparr>)" for t
    by (simp add: service token_service_def token_verify_issue)
  ultimately show ?thesis
    by auto
qed

theorem login_token_valid_for_one_hour_witness:
  "\<exists>tok. login demo_libs demo_env (demo_io 1000)
            [(''username'', ''alice01''), (''password'', ''Abcdef1!'')] demo_world =
            Response 200 (JObject [(''message'', JString ''Login successful.''),
                                   (''token'', JString tok)])
     \<and> (\<exists>d. verify (jwt demo_libs) tok (JWT_SECRET demo_env) 4599 = Inr d \<and> claim_id d = ''u-1'')
     \<and> verify (jwt demo_libs) tok (JWT_SECRET demo_env) 4600 = Inl TokenExpiredError"
proof -
  have "jwt demo_libs = token_service checksum"
    by (simp add: demo_libs_def)
  from login_token_valid_for_one_hour [OF this, of "''alice01''" "''Abcdef1!''" demo_world alice
      demo_env "demo_io 1000"]
  obtain tok where
    "login demo_libs demo_env (demo_io 1000)
       [(''username'', ''alice01''), (''password'', ''Abcdef1!'')] demo_world =
       Response 200 (JObject [(''message'', JString ''Login successful.''),
                              (''token'', JString tok)])"
    and "\<forall>t. t < clock (demo_io 1000) + 3600 \<longrightarrow>
           (\<exists>d. verify (jwt demo_libs) tok (JWT_SECRET demo_env) t = Inr d
              \<and> claim_id d = user_id alice)"
    and "\<forall>t. clock (demo_io 1000) + 3600 \<le> t \<longrightarrow>
           verify (jwt demo_libs) tok (JWT_SECRET demo_env) t = Inl TokenExpiredError"
    by (auto simp add: demo_login_valid demo_find demo_compare)
  then show ?thesis
    by (intro exI [of _ tok]) (simp add: demo_io_def alice_def)
qed

text \<open>
  C7. In the login operation, for every input (username, password), the failure produced
  when no user with that username exists is identical (same status, same message) to the
  failure produced when the user exists but the password does not verify; for an input
  that the schema accepts it is 400 \<^verbatim>\<open>Invalid username or password.\<close>
\<close>

theorem login_failures_indistinguishable:
  assumes absent: "findOne_username (users w1) u = None"
    and present: "findOne_username (users w2) u = Some usr"
    and wrong: "\<not> compare (bcrypt L) p (password usr)"
  shows "login L E i [(''username'', u), (''password'', p)] w1 =
         login L E i [(''username'', u), (''password'', p)] w2
       \<and> (validate (joi_email L) loginSchema [(''username'', u), (''password'', p)] = None
            \<longrightarrow> login L E i [(''username'', u), (''password'', p)] w1 =
                  message_response 400 ''Invalid username or password.'')"
  using assms by (simp add: login_def split: option.splits)

theorem login_failures_indistinguishable_witness:
  "login demo_libs demo_env (demo_io 1000) [(''username'', ''alice01''), (''password'', ''wrong'')]
     \<lparr>users = [], mail_calls = []\<rparr> =
   login demo_libs demo_env (demo_io 1000) [(''username'', ''alice01''), (''password'', ''wrong'')]
     demo_world
   \<and> login demo_libs demo_env (demo_io 1000) [(''username'', ''alice01''), (''password'', ''wrong'')]
     demo_world = message_response 400 ''Invalid username or password.''"
proof -
  have absent: "findOne_username (users \<lparr>users = [], mail_calls = []\<rparr>) ''alice01'' = None"
    by (simp add: findOne_username_def)
  have valid: "validate (joi_email demo_libs) loginSchema
      [(''username'', ''alice01''), (''password'', ''wrong'')] = None"
    by (simp add: demo_login_valid)
  note both = login_failures_indistinguishable
    [OF absent demo_find(1) demo_compare(2), of demo_env "demo_io 1000"]
  from both have same: "login demo_libs demo_env (demo_io 1000)
        [(''username'', ''alice01''), (''password'', ''wrong'')] \<lparr>users = [], mail_calls = []\<rparr> =
      login demo_libs demo_env (demo_io 1000)
        [(''username'', ''alice01''), (''password'', ''wrong'')] demo_world"
    by (rule conjunct1)
  from both valid have kind: "login demo_libs demo_env (demo_io 1000)
        [(''username'', ''alice01''), (''password'', ''wrong'')] \<lparr>users = [], mail_calls = []\<rparr> =
      message_response 400 ''Invalid username or password.''"
    by blast
  show ?thesis
  proof
    show "login demo_libs demo_env (demo_io 1000)
        [(''username'', ''alice01''), (''password'', ''wrong'')] \<lparr>users = [], mail_calls = []\<rparr> =
      login demo_libs demo_env (demo_io 1000)
        [(''username'', ''alice01''), (''password'', ''wrong'')] demo_world"
      by (rule same)
    show "login demo_libs demo_env (demo_io 1000)
        [(''username'', ''alice01''), (''password'', ''wrong'')] demo_world =
      message_response 400 ''Invalid username or password.''"
      by (rule trans [OF same [symmetric] kind])
  qed
qed

text \<open>
  C8. The token issued at login and the token issued at reset-request are made by the
  same function of the subject's id: same payload, same secret \<^verbatim>\<open>JWT_SECRET\<close>, same
  lifetime of one hour, nothing that tells the purpose; issued in the same second they
  are the same text. So a token issued by one operation is accepted by the verification
  of the other within its validity window: sent to reset-confirm before its expiry, the
  token that login returned overwrites the password of its user, and presented as a
  bearer credential before its expiry, the token of the mailed link opens the profile of
  its user; from the expiry on each is refused as any expired token is. The token
  package is the Token Service of the specification, under any signature function; the
  subject's id has no space, so that the token is one segment of the header.
\<close>

theorem session_and_reset_tokens_interchangeable:
  assumes service: "jwt L = token_service mac"
    and login_valid:
      "validate (joi_email L) loginSchema [(''username'', u), (''password'', p)] = None"
    and by_username: "findOne_username (users w) u = Some usr"
    and correct: "compare (bcrypt L) p (password usr)"
    and request_valid: "validate (joi_email L) resetPasswordSchema [(''email'', e)] = None"
    and by_email: "findOne_email (users w) e = Some usr"
    and confirm_valid:
      "validate (joi_email L) newPasswordSchema
         [(''token'', sign (jwt L) (user_id usr) (JWT_SECRET E) 3600 (clock i)),
          (''newPassword'', np)] = None"
    and no_space: "CHR '' '' \<notin> set (user_id usr)"
    and stored: "findByPk (users w') (user_id usr) = Some usr'"
  shows "\<exists>session reset.
           login L E i [(''username'', u), (''password'', p)] w =
             Response 200 (JObject [(''message'', JString ''Login successful.''),
                                    (''token'', JString session)])
         \<and> map mail_link (mail_calls (snd (resetPasswordRequest L E j [(''email'', e)] w))) =
             map mail_link (mail_calls w) @ [FRONTEND_URL E @ ''/reset-password?token='' @ reset]
         \<and> session = sign (jwt L) (user_id usr) (JWT_SECRET E) 3600 (clock i)
         \<and> reset = sign (jwt L) (user_id usr) (JWT_SECRET E) 3600 (clock j)
         \<and> (clock i = clock j \<longrightarrow> session = reset)
         \<and> (clock v < clock i + 3600 \<longrightarrow>
               resetPassword L E v [(''token'', session), (''newPassword'', np)] w' =
                 (message_response 200 ''Password reset successfully.'',
                  w'\<lparr>users := user_update_password (users w') usr'
                                  (hash (bcrypt L) np 10 (salt v))\<rparr>))
         \<and> (clock i + 3600 \<le> clock v \<longrightarrow>
               resetPassword L E v [(''token'', session), (''newPassword'', np)] w' =
                 (message_response 400 ''Token expired.'', w'))
         \<and> (clock v < clock j + 3600 \<longrightarrow>
               verifyToken L E v (Some (''Bearer '' @ reset)) = Next (user_id usr)
             \<and> profile L E v (Some (''Bearer '' @ reset)) w' =
                 Response 200
                   (JObject [(''message'', JString ''Welcome to your profile!''),
                             (''user'', JObject [(''id'', JString (user_id usr')),
                                                 (''username'', JString (username usr')),
                                                 (''email'', JString (email usr'))])]))
         \<and> (clock j + 3600 \<le> clock v \<longrightarrow>
               verifyToken L E v (Some (''Bearer '' @ reset)) =
                 Reply (message_response 401 ''Invalid token.''))"
proof -
  let ?session = "sign (jwt L) (user_id usr) (JWT_SECRET E) 3600 (clock i)"
  let ?reset = "sign (jwt L) (user_id usr) (JWT_SECRET E) 3600 (clock j)"
  have issued: "sign (jwt L) (user_id usr) (JWT_SECRET E) 3600 t =
      token_issue mac (user_id usr) (JWT_SECRET E) 3600 t" for t
    by (simp add: service token_service_def)
  have checked: "verify (jwt L) (sign (jwt L) (user_id usr) (JWT_SECRET E) 3600 t)
        (JWT_SECRET E) (clock v) =
      (if t + 3600 \<le> clock v then Inl TokenExpiredError
       else Inr \<lparr>claim_id = user_id usr, claim_iat = t, claim_exp = t + 3600\<rparr>)" for t
    by (simp add: service token_service_def token_verify_issue)
  have logged_in: "login L E i [(''username'', u), (''password'', p)] w =
      Response 200 (JObject [(''message'', JString ''Login successful.''),
                             (''token'', JString ?session)])"
    using login_valid by_username correct by (rule login_success)
  have mailed: "map mail_link (mail_calls (snd (resetPasswordRequest L E j [(''email'', e)] w))) =
      map mail_link (mail_calls w) @ [FRONTEND_URL E @ ''/reset-password?token='' @ ?reset]"
    using request_valid by_email by (simp add: resetPasswordRequest_mail)
  have replay: "resetPassword L E v [(''token'', ?session), (''newPassword'', np)] w' =
      (message_response 200 ''Password reset successfully.'',
       w'\<lparr>users := user_update_password (users w') usr' (hash (bcrypt L) np 10 (salt v))\<rparr>)"
    if "clock v < clock i + 3600"
  proof (rule resetPassword_accepts [OF confirm_valid])
    show "verify (jwt L) ?session (JWT_SECRET E) (clock v) =
        Inr \<lparr>claim_id = user_id usr, claim_iat = clock i, claim_exp = clock i + 3600\<rparr>"
      using that by (simp add: checked)
    show "findByPk (users w')
        (claim_id \<lparr>claim_id = user_id usr, claim_iat = clock i, claim_exp = clock i + 3600\<rparr>) =
        Some usr'"
      using stored by simp
  qed
  have too_late: "resetPassword L E v [(''token'', ?session), (''newPassword'', np)] w' =
      (message_response 400 ''Token expired.'', w')"
    if "clock i + 3600 \<le> clock v"
    using that by (intro resetPassword_expired [OF confirm_valid]) (simp add: checked)
  have bearer: "verifyToken L E v (Some (''Bearer '' @ ?reset)) =
      (case verify (jwt L) ?reset (JWT_SECRET E) (clock v) of
         Inl err \<Rightarrow> Reply (message_response 401 ''Invalid token.'')
       | Inr decoded \<Rightarrow> Next (claim_id decoded))"
    using verifyToken_token [of "''Bearer''" ?reset L E v]
      token_issue_no_space [OF no_space, of mac "JWT_SECRET E" 3600 "clock j"]
      token_issue_not_empty [of mac "user_id usr" "JWT_SECRET E" 3600 "clock j"]
    by (simp add: issued)
  have opened: "verifyToken L E v (Some (''Bearer '' @ ?reset)) = Next (user_id usr)"
    if "clock v < clock j + 3600"
    using that bearer by (simp add: checked)
  have shown: "profile L E v (Some (''Bearer '' @ ?reset)) w' =
      Response 200
        (JObject [(''message'', JString ''Welcome to your profile!''),
                  (''user'', JObject [(''id'', JString (user_id usr')),
                                      (''username'', JString (username usr')),
                                      (''email'', JString (email usr'))])])"
    if "clock v < clock j + 3600"
    using opened [OF that] stored
    by (simp add: profile_def profile_route_def select_attributes_profile)
  have closed: "verifyToken L E v (Some (''Bearer '' @ ?reset)) =
      Reply (message_response 401 ''Invalid token.'')"
    if "clock j + 3600 \<le> clock v"
    using that bearer by (simp add: checked)
  show ?thesis
    using logged_in mailed replay too_late opened shown closed
    by (intro exI [of _ ?session] exI [of _ ?reset]) simp
qed

theorem session_and_reset_tokens_interchangeable_witness:
  "login demo_libs demo_env (demo_io 1000)
     [(''username'', ''alice01''), (''password'', ''Abcdef1!'')] demo_world =
     Response 200 (JObject [(''message'', JString ''Login successful.''),
                            (''token'', JString ''246.1000.4600.u-1'')])
   \<and> resetPassword demo_libs demo_env (demo_io 2000)
       [(''token'', ''246.1000.4600.u-1''), (''newPassword'', ''Zyxwvu9?'')] demo_world =
       (message_response 200 ''Password reset successfully.'',
        \<lparr>users = [alice\<lparr>password := ''$2b$NaCl?9uvwxyZ''\<rparr>], mail_calls = []\<rparr>)
   \<and> map mail_link (mail_calls (snd (resetPasswordRequest demo_libs demo_env (demo_io 1200)
         [(''email'', ''a@x.com'')] demo_world))) =
       [''http://localhost:5173/reset-password?token=13145.1200.4800.u-1'']
   \<and> verifyToken demo_libs demo_env (demo_io 2000) (Some ''Bearer 13145.1200.4800.u-1'') =
       Next ''u-1''
   \<and> profile demo_libs demo_env (demo_io 2000) (Some ''Bearer 13145.1200.4800.u-1'') demo_world =
       Response 200
         (JObject [(''message'', JString ''Welcome to your profile!''),
                   (''user'', JObject [(''id'', JString ''u-1''),
                                       (''username'', JString ''alice01''),
                                       (''email'', JString ''a@x.com'')])])"
proof -
  have service: "jwt demo_libs = token_service checksum"
    by (simp add: demo_libs_def)
  have login_valid: "validate (joi_email demo_libs) loginSchema
      [(''username'', ''alice01''), (''password'', ''Abcdef1!'')] = None"
    by (simp add: demo_login_valid)
  have confirm_valid: "validate (joi_email demo_libs) newPasswordSchema
      [(''token'', sign (jwt demo_libs) (user_id alice) (JWT_SECRET demo_env) 3600
                     (clock (demo_io 1000))),
       (''newPassword'', ''Zyxwvu9?'')] = None"
    by (simp add: demo_alice_id demo_clock demo_token demo_new_password_valid)
  have no_space: "CHR '' '' \<notin> set (user_id alice)"
    by (simp add: demo_alice_id)
  have stored: "findByPk (users demo_world) (user_id alice) = Some alice"
    by (simp add: demo_alice_id demo_find)
  from session_and_reset_tokens_interchangeable [OF service login_valid demo_find(1) demo_compare(1)
      demo_reset_request_valid(2) demo_find(3) confirm_valid no_space stored,
      of "demo_io 1200" "demo_io 2000"]
  obtain session reset where
    "login demo_libs demo_env (demo_io 1000)
       [(''username'', ''alice01''), (''password'', ''Abcdef1!'')] demo_world =
       Response 200 (JObject [(''message'', JString ''Login successful.''),
                              (''token'', JString session)])"
    and "map mail_link (mail_calls (snd (resetPasswordRequest demo_libs demo_env (demo_io 1200)
           [(''email'', ''a@x.com'')] demo_world))) =
         map mail_link (mail_calls demo_world) @
           [FRONTEND_URL demo_env @ ''/reset-password?token='' @ reset]"
    and "session = ''246.1000.4600.u-1''"
    and "reset = ''13145.1200.4800.u-1''"
    and "resetPassword demo_libs demo_env (demo_io 2000)
           [(''token'', session), (''newPassword'', ''Zyxwvu9?'')] demo_world =
         (message_response 200 ''Password reset successfully.'',
          demo_world\<lparr>users := user_update_password (users demo_world) alice
             (hash (bcrypt demo_libs) ''Zyxwvu9?'' 10 (salt (demo_io 2000)))\<rparr>)"
    and "verifyToken demo_libs demo_env (demo_io 2000) (Some (''Bearer '' @ reset)) =
           Next (user_id alice)"
    and "profile demo_libs demo_env (demo_io 2000) (Some (''Bearer '' @ reset)) demo_world =
           Response 200
             (JObject [(''message'', JString ''Welcome to your profile!''),
                       (''user'', JObject [(''id'', JString (user_id alice)),
                                           (''username'', JString (username alice)),
                                           (''email'', JString (email alice))])])"
    by (auto simp add: demo_alice_id demo_clock demo_token demo_reset_token)
  then show ?thesis
    by (simp add: demo_world_def demo_env_def demo_libs_def reversing_bcrypt_def demo_io_def
        user_update_password_def alice_def)
qed

text \<open>
  C9. For every well-formed email address that matches no user record in the store, the
  password-reset request fails with EmailNotFound (404 \<^verbatim>\<open>Email not found.\<close>) and the
  mailer is not called: the recorded calls are what they were.
\<close>

theorem resetPasswordRequest_unknown_email:
  assumes valid: "validate (joi_email L) resetPasswordSchema b = None"
    and field: "map_of b ''email'' = Some e"
    and unknown: "findOne_email (users w) e = None"
  shows "resetPasswordRequest L E i b w = (message_response 404 ''Email not found.'', w)
       \<and> mail_calls (snd (resetPasswordRequest L E i b w)) = mail_calls w"
  using assms by (simp add: resetPasswordRequest_def)

theorem resetPasswordRequest_unknown_email_witness:
  "resetPasswordRequest demo_libs demo_env (demo_io 1000) [(''email'', ''z@x.com'')] demo_world =
     (message_response 404 ''Email not found.'', demo_world)
   \<and> mail_calls (snd (resetPasswordRequest demo_libs demo_env (demo_io 1000)
        [(''email'', ''z@x.com'')] demo_world)) = []"
  using resetPasswordRequest_unknown_email
    [of demo_libs "[(''email'', ''z@x.com'')]" "''z@x.com''" demo_world demo_env "demo_io 1000"]
  by (simp add: demo_reset_request_valid demo_find) (simp add: demo_world_def)

text \<open>
  C10. In the profile retrieval, a request whose Authorization header is absent or has
  no second space-separated segment is rejected with 403 \<^verbatim>\<open>No token provided.\<close>,
  which is not the reply to a bad token, whatever the token package and the store are
  (neither is consulted); and the scheme word is never inspected: any word without a
  space, followed by a space and a token, is treated as the token alone would be.
\<close>

theorem verifyToken_no_token_any_scheme:
  "((authHeader = None \<or> (\<exists>h. authHeader = Some h \<and> js_index (js_split CHR '' '' h) 1 = None))
      \<longrightarrow> verifyToken L E i authHeader = Reply (message_response 403 ''No token provided.'')
        \<and> profile L E i authHeader w = message_response 403 ''No token provided.''
        \<and> message_response 403 ''No token provided.'' \<noteq> message_response 401 ''Invalid token.'')
   \<and> (CHR '' '' \<notin> set scheme \<and> CHR '' '' \<notin> set tok \<and> tok \<noteq> []
      \<longrightarrow> verifyToken L E i (Some (scheme @ '' '' @ tok)) =
            (case verify (jwt L) tok (JWT_SECRET E) (clock i) of
               Inl err \<Rightarrow> Reply (message_response 401 ''Invalid token.'')
             | Inr decoded \<Rightarrow> Next (claim_id decoded)))"
proof (intro conjI impI)
  assume a: "authHeader = None \<or> (\<exists>h. authHeader = Some h \<and> js_index (js_split CHR '' '' h) 1 = None)"
  then show v: "verifyToken L E i authHeader = Reply (message_response 403 ''No token provided.'')"
    by (auto simp add: verifyToken_def)
  then show "profile L E i authHeader w = message_response 403 ''No token provided.''"
    by (simp add: profile_def profile_route_def)
  show "message_response 403 ''No token provided.'' \<noteq> message_response 401 ''Invalid token.''"
    by (simp add: message_response_def)
next
  assume h: "CHR '' '' \<notin> set scheme \<and> CHR '' '' \<notin> set tok \<and> tok \<noteq> []"
  show "verifyToken L E i (Some (scheme @ '' '' @ tok)) =
            (case verify (jwt L) tok (JWT_SECRET E) (clock i) of
               Inl err \<Rightarrow> Reply (message_response 401 ''Invalid token.'')
             | Inr decoded \<Rightarrow> Next (claim_id decoded))"
    by (rule verifyToken_token) (use h in simp_all)
qed

theorem verifyToken_no_token_any_scheme_witness:
  "js_index (js_split CHR '' '' ''Bearer'') 1 = None
   \<and> verifyToken demo_libs demo_env (demo_io 1000) (Some ''Bearer'') =
       Reply (message_response 403 ''No token provided.'')
   \<and> profile demo_libs demo_env (demo_io 1000) (Some ''Bearer'') demo_world =
       message_response 403 ''No token provided.''
   \<and> verifyToken demo_libs demo_env (demo_io 1000) (Some ''Token 246.1000.4600.u-1'') =
       Next ''u-1''"
  using verifyToken_no_token_any_scheme
    [where authHeader = "Some ''Bearer''" and L = demo_libs and E = demo_env
       and i = "demo_io 1000" and w = demo_world and scheme = "''Token''"
       and tok = "''246.1000.4600.u-1''"]
  by (simp add: js_index_def demo_verify demo_io_def)

end
